theory Spec2Isabelle
  imports Complex_Main
begin

section \<open>Data model\<close>

text \<open>
  The program is \<^verbatim>\<open>src/main.js\<close>: one class \<^verbatim>\<open>Game\<close> that builds a raycast vehicle
  with the physics engine (cannon-es), maps five keyboard flags to per-wheel engine
  force, steering and brake in \<^verbatim>\<open>updateVehicle\<close>, and runs the frame loop \<^verbatim>\<open>animate\<close>.

  JavaScript numbers are modelled as \<^typ>\<open>real\<close>. Every number the modelled code
  handles is a literal, the negation of a literal, or a value passed through unchanged,
  so no rounding takes place in the modelled part. A \<^verbatim>\<open>Vec3\<close> is a triple.
\<close>

type_synonym vec3 = "real \<times> real \<times> real"

text \<open>\<^verbatim>\<open>this.inputs\<close> (lines 27-33).\<close>

record inputState =
  forward :: bool
  backward :: bool
  left :: bool
  right :: bool
  brake :: bool

text \<open>The \<^verbatim>\<open>options\<close> object literal of \<^verbatim>\<open>initVehicle\<close> (lines 114-129).\<close>

record wheelOptions =
  radius :: real
  directionLocal :: vec3
  suspensionStiffness :: real
  suspensionRestLength :: real
  frictionSlip :: real
  dampingRelaxation :: real
  dampingCompression :: real
  maxSuspensionForce :: real
  rollInfluence :: real
  axleLocal :: vec3
  chassisConnectionPointLocal :: vec3
  maxSuspensionTravel :: real
  customSlidingRotationalSpeed :: real
  useCustomSlidingRotationalSpeed :: bool

text \<open>
  A wheel of the vehicle (the engine's \<^verbatim>\<open>WheelInfo\<close>): the fixed parameters it was
  created with, and the three fields the engine's setters write. The setters' fields are
  called \<^verbatim>\<open>steering\<close>, \<^verbatim>\<open>engineForce\<close> and \<^verbatim>\<open>brake\<close> in the engine; the last two
  carry a prefix here, since \<^verbatim>\<open>engineForce\<close> and \<^verbatim>\<open>brake\<close> are names of the source
  (a constant of \<^verbatim>\<open>updateVehicle\<close> and an input flag).
\<close>

record wheelInfo = wheelOptions +
  steering :: real
  wheel_engineForce :: real
  wheel_brake :: real

text \<open>The chassis \<^verbatim>\<open>CANNON.Body\<close>, with the fields \<^verbatim>\<open>initVehicle\<close> sets.\<close>

record body =
  mass :: real
  shapes :: "vec3 list"
  position :: vec3
  angularVelocity :: vec3

record raycastVehicle =
  chassisBody :: body
  indexRightAxis :: nat
  indexUpAxis :: nat
  indexForwardAxis :: nat
  wheelInfos :: "wheelInfo list"

text \<open>A wheel mesh of \<^verbatim>\<open>this.wheelVisuals\<close> (lines 161-166).\<close>

record mesh =
  castShadow :: bool

text \<open>
  The numerical work of the physics engine and of the renderer is outside the source.
  What the source decides is which calls it makes into them, with which arguments and in
  which order; the model records these calls in a log, in program order. A
  \<open>WorldStep\<close> entry also records the control fields (engine force, steering, brake)
  each wheel holds at the moment of the call: the vehicle has been added to the world
  (line 147), so these are the values the engine's step reads.
\<close>

datatype call =
    RequestAnimationFrame
  | GetDelta
  | WorldStep real real "(real \<times> real \<times> real) list"
  | ApplyEngineForce real nat
  | SetSteeringValue real nat
  | SetBrake real nat
  | CopyChassisPosition
  | CopyChassisQuaternion
  | UpdateWheelTransform nat
  | CopyWheelPosition nat
  | CopyWheelQuaternion nat
  | FollowCamera
  | ShowSpeed
  | Render

text \<open>
  The fields of \<^verbatim>\<open>Game\<close> that the vehicle code reads or writes: \<^verbatim>\<open>world.gravity\<close>,
  \<^verbatim>\<open>inputs\<close>, \<^verbatim>\<open>vehicle\<close>, \<^verbatim>\<open>wheelVisuals\<close>, and the log of calls.
\<close>

record game =
  gravity :: vec3
  inputs :: inputState
  vehicle :: raycastVehicle
  wheelVisuals :: "mesh list"
  calls :: "call list"

text \<open>
  Reading a property of \<^verbatim>\<open>undefined\<close> (an array element out of range) throws a
  \<^verbatim>\<open>TypeError\<close> in JavaScript.
\<close>

datatype error = TypeError

section \<open>Sequencing\<close>

text \<open>Statements in sequence; the first exception ends the sequence.\<close>

fun runAll :: "('s \<Rightarrow> error + 's) list \<Rightarrow> 's \<Rightarrow> error + 's" where
  "runAll [] s = Inr s"
| "runAll (f # fs) s = (case f s of Inl e \<Rightarrow> Inl e | Inr s' \<Rightarrow> runAll fs s')"

definition logCall :: "call \<Rightarrow> game \<Rightarrow> game" where
  "logCall c g = g\<lparr>calls := calls g @ [c]\<rparr>"

section \<open>The engine's interface\<close>

text \<open>
  Modelled from the spec: the methods of the engine's \<^verbatim>\<open>RaycastVehicle\<close>, which are
  not part of the source. Section 4.1: \<^verbatim>\<open>addWheel(config)\<close> "appends a WheelUnit with
  the given fixed parameters; order of calls defines wheel index"; the mount point is
  "fixed at creation", so the wheel keeps the value the options hold at the call, not a
  reference to the options object that \<^verbatim>\<open>initVehicle\<close> goes on to mutate. The three
  control fields start at 0, as the engine's wheel constructor sets them.
\<close>

definition addWheel :: "wheelOptions \<Rightarrow> raycastVehicle \<Rightarrow> raycastVehicle" where
  "addWheel options v =
     v\<lparr>wheelInfos := wheelInfos v @
         [wheelOptions.extend options
            (wheelInfo.fields 0 0 0)]\<rparr>"

text \<open>
  Modelled from the spec: \<^verbatim>\<open>applyEngineForce(force, wheelIndex)\<close>,
  \<^verbatim>\<open>setSteeringValue(angle, wheelIndex)\<close> and \<^verbatim>\<open>setBrake(force, wheelIndex)\<close>, which
  are not part of the source, "set the corresponding mutable field on the WheelUnit at
  wheelIndex; fail if index \<ge> wheel count".
\<close>

definition setWheel :: "(wheelInfo \<Rightarrow> wheelInfo) \<Rightarrow> nat \<Rightarrow> game \<Rightarrow> error + game" where
  "setWheel f wheelIndex g =
     (let ws = wheelInfos (vehicle g) in
      if wheelIndex < length ws
      then Inr (g\<lparr>vehicle := (vehicle g)\<lparr>wheelInfos := ws[wheelIndex := f (ws ! wheelIndex)]\<rparr>\<rparr>)
      else Inl TypeError)"

definition applyEngineForce :: "real \<Rightarrow> nat \<Rightarrow> game \<Rightarrow> error + game" where
  "applyEngineForce val wheelIndex g =
     setWheel (\<lambda>w. w\<lparr>wheel_engineForce := val\<rparr>) wheelIndex
       (logCall (ApplyEngineForce val wheelIndex) g)"

definition setSteeringValue :: "real \<Rightarrow> nat \<Rightarrow> game \<Rightarrow> error + game" where
  "setSteeringValue val wheelIndex g =
     setWheel (\<lambda>w. w\<lparr>steering := val\<rparr>) wheelIndex
       (logCall (SetSteeringValue val wheelIndex) g)"

definition setBrake :: "real \<Rightarrow> nat \<Rightarrow> game \<Rightarrow> error + game" where
  "setBrake val wheelIndex g =
     setWheel (\<lambda>w. w\<lparr>wheel_brake := val\<rparr>) wheelIndex
       (logCall (SetBrake val wheelIndex) g)"

text \<open>
  Modelled from the spec: \<^verbatim>\<open>world.step(dt, timeSinceLastCalled)\<close>, the engine's step,
  which is not part of the source. Section 4.1: it "mutates chassis body velocity/position
  indirectly" and "mutates WheelUnit derived fields"; section 3: \<^verbatim>\<open>steering\<close>,
  \<^verbatim>\<open>engineForce\<close> and \<^verbatim>\<open>brake\<close> are set by the Input-to-Force Mapper. So the step
  reads the control fields and does not write them. Poses and derived fields are not
  modelled; the model logs the call with both arguments as passed and with the control
  fields of the wheels at that moment.
\<close>

definition controls :: "wheelInfo \<Rightarrow> real \<times> real \<times> real" where
  "controls w = (wheel_engineForce w, steering w, wheel_brake w)"

definition worldStep :: "real \<Rightarrow> real \<Rightarrow> game \<Rightarrow> error + game" where
  "worldStep dt timeSinceLastCalled g =
     Inr (logCall (WorldStep dt timeSinceLastCalled (map controls (wheelInfos (vehicle g)))) g)"

text \<open>
  Modelled from the spec: \<^verbatim>\<open>vehicle.updateWheelTransform(i)\<close>, which is not part of
  the source, recomputes the world transform of the wheel at index \<open>i\<close> from the chassis
  pose (section 4.1, step 6); a wheel-indexed read out of range fails (section 7).
\<close>

definition updateWheelTransform :: "nat \<Rightarrow> game \<Rightarrow> error + game" where
  "updateWheelTransform i g =
     (if i < length (wheelInfos (vehicle g))
      then Inr (logCall (UpdateWheelTransform i) g)
      else Inl TypeError)"

section \<open>Game constructor and initVehicle\<close>

text \<open>
  \<^verbatim>\<open>initVehicle\<close>, lines 97-166. \<^verbatim>\<open>new CANNON.Body({ mass: 1500 })\<close> has position and
  angular velocity zero and no shape until the following statements set them.
  The function reads \<^verbatim>\<open>this.wheelVisuals\<close> and leaves \<^verbatim>\<open>this.vehicle\<close> and the
  extended \<^verbatim>\<open>this.wheelVisuals\<close>; the model returns this pair.
\<close>

definition initVehicle :: "mesh list \<Rightarrow> raycastVehicle \<times> mesh list" where
  "initVehicle visuals =
     (let chassisShape = (1, 0.5, 2);
          chassisBody0 = \<lparr>mass = 1500, shapes = [], position = (0, 0, 0),
                          angularVelocity = (0, 0, 0)\<rparr>;
          chassisBody1 = chassisBody0\<lparr>shapes := shapes chassisBody0 @ [chassisShape]\<rparr>;
          chassisBody2 = chassisBody1\<lparr>position := (0, 4, 0)\<rparr>;
          chassisBody3 = chassisBody2\<lparr>angularVelocity := (0, 0, 0.5)\<rparr>;
          vehicle0 = \<lparr>chassisBody = chassisBody3, indexRightAxis = 0, indexUpAxis = 1,
                      indexForwardAxis = 2, wheelInfos = []\<rparr>;
          options = \<lparr>radius = 0.4,
                     directionLocal = (0, -1, 0),
                     suspensionStiffness = 30,
                     suspensionRestLength = 0.3,
                     frictionSlip = 1.4,
                     dampingRelaxation = 2.3,
                     dampingCompression = 4.4,
                     maxSuspensionForce = 100000,
                     rollInfluence = 0.01,
                     axleLocal = (-1, 0, 0),
                     chassisConnectionPointLocal = (1, 1, 0),
                     maxSuspensionTravel = 0.3,
                     customSlidingRotationalSpeed = -30,
                     useCustomSlidingRotationalSpeed = True\<rparr>;
          optionsFL = options\<lparr>chassisConnectionPointLocal := (-1, -0.4, 1.5)\<rparr>;
          vehicle1 = addWheel optionsFL vehicle0;
          optionsFR = optionsFL\<lparr>chassisConnectionPointLocal := (1, -0.4, 1.5)\<rparr>;
          vehicle2 = addWheel optionsFR vehicle1;
          optionsRL = optionsFR\<lparr>chassisConnectionPointLocal := (-1, -0.4, -1.5)\<rparr>;
          vehicle3 = addWheel optionsRL vehicle2;
          optionsRR = optionsRL\<lparr>chassisConnectionPointLocal := (1, -0.4, -1.5)\<rparr>;
          vehicle4 = addWheel optionsRR vehicle3
      in (vehicle4, visuals @ map (\<lambda>_. \<lparr>castShadow = True\<rparr>) (wheelInfos vehicle4)))"

text \<open>
  The constructor, lines 5-38, up to the call of \<^verbatim>\<open>animate\<close> in line 41: gravity,
  empty \<^verbatim>\<open>wheelVisuals\<close>, all five input flags false, then \<^verbatim>\<open>initVehicle\<close>.
  (\<^verbatim>\<open>initLights\<close>, \<^verbatim>\<open>initEnvironment\<close> and \<^verbatim>\<open>initControls\<close> touch none of the
  modelled fields.)
\<close>

definition newGame :: game where
  "newGame =
     (let (v, visuals) = initVehicle []
      in \<lparr>gravity = (0, -9.82, 0),
          inputs = \<lparr>forward = False, backward = False, left = False, right = False,
                    brake = False\<rparr>,
          vehicle = v,
          wheelVisuals = visuals,
          calls = []\<rparr>)"

section \<open>updateVehicle\<close>

definition engineForce :: real where "engineForce = 1500"
definition maxSteerVal :: real where "maxSteerVal = 0.5"
definition brakeForce :: real where "brakeForce = 100"

text \<open>Lines 200-241, the three \<^verbatim>\<open>if\<close> chains in the order of the source.\<close>

definition updateVehicle :: "game \<Rightarrow> error + game" where
  "updateVehicle =
     runAll
      [\<lambda>g. if forward (inputs g) then
              runAll [applyEngineForce (- engineForce) 2,
                      applyEngineForce (- engineForce) 3] g
            else if backward (inputs g) then
              runAll [applyEngineForce engineForce 2,
                      applyEngineForce engineForce 3] g
            else
              runAll [applyEngineForce 0 2,
                      applyEngineForce 0 3] g,
       \<lambda>g. if left (inputs g) then
              runAll [setSteeringValue maxSteerVal 0,
                      setSteeringValue maxSteerVal 1] g
            else if right (inputs g) then
              runAll [setSteeringValue (- maxSteerVal) 0,
                      setSteeringValue (- maxSteerVal) 1] g
            else
              runAll [setSteeringValue 0 0,
                      setSteeringValue 0 1] g,
       \<lambda>g. if brake (inputs g) then
              runAll [setBrake brakeForce 0,
                      setBrake brakeForce 1,
                      setBrake brakeForce 2,
                      setBrake brakeForce 3] g
            else
              runAll [setBrake 0 0,
                      setBrake 0 1,
                      setBrake 0 2,
                      setBrake 0 3] g]"

section \<open>animate\<close>

text \<open>
  The body of the loop of lines 262-267 for one index: \<^verbatim>\<open>updateWheelTransform(i)\<close>,
  then the wheel's \<^verbatim>\<open>worldTransform\<close> is read and copied into \<^verbatim>\<open>wheelVisuals[i]\<close>.
\<close>

definition copyToVisual :: "call \<Rightarrow> nat \<Rightarrow> game \<Rightarrow> error + game" where
  "copyToVisual c i g =
     (if i < length (wheelInfos (vehicle g)) \<and> i < length (wheelVisuals g)
      then Inr (logCall c g)
      else Inl TypeError)"

definition syncWheel :: "nat \<Rightarrow> game \<Rightarrow> error + game" where
  "syncWheel i =
     runAll [updateWheelTransform i,
             copyToVisual (CopyWheelPosition i) i,
             copyToVisual (CopyWheelQuaternion i) i]"

text \<open>
  One frame, lines 249-284. \<^verbatim>\<open>delta\<close> is what \<^verbatim>\<open>this.clock.getDelta()\<close> returns in
  this frame. The \<^verbatim>\<open>for\<close> loop runs over the indices below \<^verbatim>\<open>wheelInfos.length\<close>.
\<close>

definition animate :: "real \<Rightarrow> game \<Rightarrow> error + game" where
  "animate delta =
     runAll
      [\<lambda>g. Inr (logCall RequestAnimationFrame g),
       \<lambda>g. Inr (logCall GetDelta g),
       worldStep (1 / 60) delta,
       updateVehicle,
       \<lambda>g. Inr (logCall CopyChassisPosition g),
       \<lambda>g. Inr (logCall CopyChassisQuaternion g),
       \<lambda>g. runAll (map syncWheel [0 ..< length (wheelInfos (vehicle g))]) g,
       \<lambda>g. Inr (logCall FollowCamera g),
       \<lambda>g. Inr (logCall ShowSpeed g),
       \<lambda>g. Inr (logCall Render g)]"

text \<open>
  The life of the process after the constructor: a sequence of frames. Between two frames
  the key handlers of \<^verbatim>\<open>initControls\<close> may have set or cleared any of the five flags,
  so each frame comes with the input state it finds and with its clock reading.
\<close>

fun frames :: "(inputState \<times> real) list \<Rightarrow> game \<Rightarrow> error + game" where
  "frames [] g = Inr g"
| "frames ((inp, delta) # fs) g =
     (case animate delta (g\<lparr>inputs := inp\<rparr>) of
        Inl e \<Rightarrow> Inl e
      | Inr g' \<Rightarrow> frames fs g')"

section \<open>Reading the state and the log\<close>

text \<open>The control fields of all wheels, in index order.\<close>

definition engineForces :: "game \<Rightarrow> real list" where
  "engineForces g = map wheel_engineForce (wheelInfos (vehicle g))"

definition steerings :: "game \<Rightarrow> real list" where
  "steerings g = map steering (wheelInfos (vehicle g))"

definition brakes :: "game \<Rightarrow> real list" where
  "brakes g = map wheel_brake (wheelInfos (vehicle g))"

text \<open>
  The setter calls of a log, each kind in log order, as pairs of value and wheel index;
  the arguments of the step calls; the wheels whose transform is copied to a visual.
\<close>

fun engineCall :: "call \<Rightarrow> (real \<times> nat) list" where
  "engineCall (ApplyEngineForce v i) = [(v, i)]"
| "engineCall _ = []"

fun steeringCall :: "call \<Rightarrow> (real \<times> nat) list" where
  "steeringCall (SetSteeringValue v i) = [(v, i)]"
| "steeringCall _ = []"

fun brakeCall :: "call \<Rightarrow> (real \<times> nat) list" where
  "brakeCall (SetBrake v i) = [(v, i)]"
| "brakeCall _ = []"

fun stepCall :: "call \<Rightarrow> (real \<times> real) list" where
  "stepCall (WorldStep dt t cs) = [(dt, t)]"
| "stepCall _ = []"

fun positionRead :: "call \<Rightarrow> nat list" where
  "positionRead (CopyWheelPosition i) = [i]"
| "positionRead _ = []"

fun quaternionRead :: "call \<Rightarrow> nat list" where
  "quaternionRead (CopyWheelQuaternion i) = [i]"
| "quaternionRead _ = []"

fun transformUpdate :: "call \<Rightarrow> nat list" where
  "transformUpdate (UpdateWheelTransform i) = [i]"
| "transformUpdate _ = []"

definition engineCalls :: "call list \<Rightarrow> (real \<times> nat) list" where
  "engineCalls cs = concat (map engineCall cs)"

definition steeringCalls :: "call list \<Rightarrow> (real \<times> nat) list" where
  "steeringCalls cs = concat (map steeringCall cs)"

definition brakeCalls :: "call list \<Rightarrow> (real \<times> nat) list" where
  "brakeCalls cs = concat (map brakeCall cs)"

definition stepCalls :: "call list \<Rightarrow> (real \<times> real) list" where
  "stepCalls cs = concat (map stepCall cs)"

definition positionReads :: "call list \<Rightarrow> nat list" where
  "positionReads cs = concat (map positionRead cs)"

definition quaternionReads :: "call list \<Rightarrow> nat list" where
  "quaternionReads cs = concat (map quaternionRead cs)"

definition transformUpdates :: "call list \<Rightarrow> nat list" where
  "transformUpdates cs = concat (map transformUpdate cs)"

text \<open>
  The invariant of section 3 of the specification, as a monitor over a log: "every
  WheelUnit's world transform must be recomputed once per physics step, after the chassis
  body is integrated, and before it is read externally". A frame begins with the call of
  \<^verbatim>\<open>requestAnimationFrame\<close>, the first statement of \<^verbatim>\<open>animate\<close>. The monitor keeps
  whether the physics step of the current frame has been made, and the set of wheels
  whose transform has been recomputed since that step:
  \<^item> the beginning of a frame clears both: no step of this frame yet, no wheel fresh;
  \<^item> a step is recorded, and makes every transform stale;
  \<^item> \<^verbatim>\<open>updateWheelTransform(i)\<close> makes wheel \<open>i\<close> fresh only if the step of the
    current frame has been made; a recomputation before the step does not count;
  \<^item> a copy of wheel \<open>i\<close>'s transform to its visual is allowed only while \<open>i\<close> is
    fresh; otherwise the read is stale and the result is \<open>None\<close>.
  So a log is accepted only if every copy in it is preceded, within its own frame, by
  the step of that frame and then by the recomputation of that wheel's transform.
\<close>

fun freshAfter :: "bool \<times> nat set \<Rightarrow> call \<Rightarrow> (bool \<times> nat set) option" where
  "freshAfter (stepped, F) RequestAnimationFrame = Some (False, {})"
| "freshAfter (stepped, F) (WorldStep dt t cs) = Some (True, {})"
| "freshAfter (stepped, F) (UpdateWheelTransform i) =
     Some (stepped, if stepped then insert i F else F)"
| "freshAfter (stepped, F) (CopyWheelPosition i) =
     (if i \<in> F then Some (stepped, F) else None)"
| "freshAfter (stepped, F) (CopyWheelQuaternion i) =
     (if i \<in> F then Some (stepped, F) else None)"
| "freshAfter (stepped, F) _ = Some (stepped, F)"

fun readsFresh :: "bool \<times> nat set \<Rightarrow> call list \<Rightarrow> (bool \<times> nat set) option" where
  "readsFresh st [] = Some st"
| "readsFresh st (c # cs) =
     (case freshAfter st c of None \<Rightarrow> None | Some st' \<Rightarrow> readsFresh st' cs)"

section \<open>A vehicle with four wheels\<close>

text \<open>
  \<^verbatim>\<open>updateVehicle\<close> addresses the wheels by the literal indices 0 to 3, so every
  statement about it is made for a vehicle with four wheels, which is what
  \<^verbatim>\<open>initVehicle\<close> builds. For such a vehicle the update and the frame have a closed
  form: \<open>e\<close>, \<open>s\<close> and \<open>k\<close> are the values the three \<^verbatim>\<open>if\<close> chains select.
\<close>

lemma length4E: "length xs = 4 \<Longrightarrow> \<exists>a b c d. xs = [a,b,c,d]"
  by (auto simp: length_Suc_conv numeral_eq_Suc)

lemma upt4: "[0..<4] = [0,1,2,3]"
  by (simp add: upt_rec)

lemma logCall_simps [simp]:
  "vehicle (logCall c g) = vehicle g"
  "inputs (logCall c g) = inputs g"
  "wheelVisuals (logCall c g) = wheelVisuals g"
  "gravity (logCall c g) = gravity g"
  "calls (logCall c g) = calls g @ [c]"
  by (simp_all add: logCall_def)

lemma updateVehicle_four:
  assumes ws: "wheelInfos (vehicle g) = [a,b,c,d]"
    and e: "e = (if forward (inputs g) then - engineForce
                 else if backward (inputs g) then engineForce else 0)"
    and s: "s = (if left (inputs g) then maxSteerVal
                 else if right (inputs g) then - maxSteerVal else 0)"
    and k: "k = (if brake (inputs g) then brakeForce else 0)"
  shows "updateVehicle g = Inr (g\<lparr>vehicle := (vehicle g)\<lparr>wheelInfos :=
      [a\<lparr>steering := s, wheel_brake := k\<rparr>,
       b\<lparr>steering := s, wheel_brake := k\<rparr>,
       c\<lparr>wheel_engineForce := e, wheel_brake := k\<rparr>,
       d\<lparr>wheel_engineForce := e, wheel_brake := k\<rparr>]\<rparr>,
     calls := calls g @
      [ApplyEngineForce e 2, ApplyEngineForce e 3,
       SetSteeringValue s 0, SetSteeringValue s 1,
       SetBrake k 0, SetBrake k 1, SetBrake k 2, SetBrake k 3]\<rparr>)"
  using ws unfolding e s k
  by (simp add: updateVehicle_def applyEngineForce_def setSteeringValue_def setBrake_def
      setWheel_def logCall_def Let_def)

lemma syncWheels_four:
  assumes "length (wheelInfos (vehicle g)) = 4" "length (wheelVisuals g) = 4"
  shows "runAll (map syncWheel [0 ..< length (wheelInfos (vehicle g))]) g =
     Inr (g\<lparr>calls := calls g @
       [UpdateWheelTransform 0, CopyWheelPosition 0, CopyWheelQuaternion 0,
        UpdateWheelTransform 1, CopyWheelPosition 1, CopyWheelQuaternion 1,
        UpdateWheelTransform 2, CopyWheelPosition 2, CopyWheelQuaternion 2,
        UpdateWheelTransform 3, CopyWheelPosition 3, CopyWheelQuaternion 3]\<rparr>)"
  using assms
  by (simp add: upt4 syncWheel_def updateWheelTransform_def copyToVisual_def logCall_def)

lemma newGame_four: "length (wheelInfos (vehicle newGame)) = 4 \<and> length (wheelVisuals newGame) = 4"
  by (simp add: newGame_def initVehicle_def addWheel_def Let_def)

lemma animate_four:
  assumes ws: "wheelInfos (vehicle g) = [a,b,c,d]"
    and vs: "length (wheelVisuals g) = 4"
    and e: "e = (if forward (inputs g) then - engineForce
                 else if backward (inputs g) then engineForce else 0)"
    and s: "s = (if left (inputs g) then maxSteerVal
                 else if right (inputs g) then - maxSteerVal else 0)"
    and k: "k = (if brake (inputs g) then brakeForce else 0)"
  shows "animate delta g = Inr (g\<lparr>vehicle := (vehicle g)\<lparr>wheelInfos :=
      [a\<lparr>steering := s, wheel_brake := k\<rparr>,
       b\<lparr>steering := s, wheel_brake := k\<rparr>,
       c\<lparr>wheel_engineForce := e, wheel_brake := k\<rparr>,
       d\<lparr>wheel_engineForce := e, wheel_brake := k\<rparr>]\<rparr>,
     calls := calls g @
      [RequestAnimationFrame, GetDelta,
       WorldStep (1 / 60) delta [controls a, controls b, controls c, controls d],
       ApplyEngineForce e 2, ApplyEngineForce e 3,
       SetSteeringValue s 0, SetSteeringValue s 1,
       SetBrake k 0, SetBrake k 1, SetBrake k 2, SetBrake k 3,
       CopyChassisPosition, CopyChassisQuaternion,
       UpdateWheelTransform 0, CopyWheelPosition 0, CopyWheelQuaternion 0,
       UpdateWheelTransform 1, CopyWheelPosition 1, CopyWheelQuaternion 1,
       UpdateWheelTransform 2, CopyWheelPosition 2, CopyWheelQuaternion 2,
       UpdateWheelTransform 3, CopyWheelPosition 3, CopyWheelQuaternion 3,
       FollowCamera, ShowSpeed, Render]\<rparr>)"
proof -
  let ?g1 = "logCall (WorldStep (1 / 60) delta [controls a, controls b, controls c, controls d])
               (logCall GetDelta (logCall RequestAnimationFrame g))"
  let ?rest = "[\<lambda>g. Inr (logCall CopyChassisPosition g),
                \<lambda>g. Inr (logCall CopyChassisQuaternion g),
                \<lambda>g. runAll (map syncWheel [0 ..< length (wheelInfos (vehicle g))]) g,
                \<lambda>g. Inr (logCall FollowCamera g),
                \<lambda>g. Inr (logCall ShowSpeed g),
                \<lambda>g. Inr (logCall Render g)]"
  have w1: "wheelInfos (vehicle ?g1) = [a,b,c,d]"
    using ws by simp
  obtain g2 where u: "updateVehicle ?g1 = Inr g2"
    and g2: "g2 = ?g1\<lparr>vehicle := (vehicle ?g1)\<lparr>wheelInfos :=
      [a\<lparr>steering := s, wheel_brake := k\<rparr>,
       b\<lparr>steering := s, wheel_brake := k\<rparr>,
       c\<lparr>wheel_engineForce := e, wheel_brake := k\<rparr>,
       d\<lparr>wheel_engineForce := e, wheel_brake := k\<rparr>]\<rparr>,
     calls := calls ?g1 @
      [ApplyEngineForce e 2, ApplyEngineForce e 3,
       SetSteeringValue s 0, SetSteeringValue s 1,
       SetBrake k 0, SetBrake k 1, SetBrake k 2, SetBrake k 3]\<rparr>"
    using updateVehicle_four [OF w1, of e s k] e s k by simp
  let ?g3 = "logCall CopyChassisQuaternion (logCall CopyChassisPosition g2)"
  have l3: "length (wheelInfos (vehicle ?g3)) = 4" "length (wheelVisuals ?g3) = 4"
    using vs by (simp_all add: g2)
  note sync = syncWheels_four [OF l3]
  have "animate delta g = runAll (updateVehicle # ?rest) ?g1"
    using ws by (simp add: animate_def worldStep_def)
  also have "\<dots> = runAll ?rest g2"
    using u by simp
  also have "\<dots> = Inr (logCall Render (logCall ShowSpeed (logCall FollowCamera
       (?g3\<lparr>calls := calls ?g3 @
       [UpdateWheelTransform 0, CopyWheelPosition 0, CopyWheelQuaternion 0,
        UpdateWheelTransform 1, CopyWheelPosition 1, CopyWheelQuaternion 1,
        UpdateWheelTransform 2, CopyWheelPosition 2, CopyWheelQuaternion 2,
        UpdateWheelTransform 3, CopyWheelPosition 3, CopyWheelQuaternion 3]\<rparr>))))"
    using sync by simp
  also have "\<dots> = Inr (g\<lparr>vehicle := (vehicle g)\<lparr>wheelInfos :=
      [a\<lparr>steering := s, wheel_brake := k\<rparr>,
       b\<lparr>steering := s, wheel_brake := k\<rparr>,
       c\<lparr>wheel_engineForce := e, wheel_brake := k\<rparr>,
       d\<lparr>wheel_engineForce := e, wheel_brake := k\<rparr>]\<rparr>,
     calls := calls g @
      [RequestAnimationFrame, GetDelta,
       WorldStep (1 / 60) delta [controls a, controls b, controls c, controls d],
       ApplyEngineForce e 2, ApplyEngineForce e 3,
       SetSteeringValue s 0, SetSteeringValue s 1,
       SetBrake k 0, SetBrake k 1, SetBrake k 2, SetBrake k 3,
       CopyChassisPosition, CopyChassisQuaternion,
       UpdateWheelTransform 0, CopyWheelPosition 0, CopyWheelQuaternion 0,
       UpdateWheelTransform 1, CopyWheelPosition 1, CopyWheelQuaternion 1,
       UpdateWheelTransform 2, CopyWheelPosition 2, CopyWheelQuaternion 2,
       UpdateWheelTransform 3, CopyWheelPosition 3, CopyWheelQuaternion 3,
       FollowCamera, ShowSpeed, Render]\<rparr>)"
    by (simp add: g2 logCall_def)
  finally show ?thesis .
qed

lemma newGame_wheelInfos:
  "\<exists>a b c d. wheelInfos (vehicle newGame) = [a, b, c, d]
     \<and> controls a = (0, 0, 0) \<and> controls b = (0, 0, 0)
     \<and> controls c = (0, 0, 0) \<and> controls d = (0, 0, 0)"
  by (simp add: newGame_def initVehicle_def addWheel_def Let_def controls_def
      wheelOptions.extend_def wheelInfo.fields_def)

lemma newGame_calls: "calls newGame = []"
  by (simp add: newGame_def Let_def split: prod.splits)

section \<open>Vehicle initialization\<close>

text \<open>
  Claim C7. Initialization builds the configuration of the specification's scenarios:
  chassis mass 1500 at position (0, 4, 0), gravity (0, -9.82, 0), and exactly four
  wheels, added in the order front-left, front-right, rear-left, rear-right at the mount
  points (-1, -0.4, 1.5), (1, -0.4, 1.5), (-1, -0.4, -1.5), (1, -0.4, -1.5). The forward
  axis is axis 2, so indices 0 and 1 are the front pair; for every input state the update
  steers exactly the wheels 0 and 1 and drives exactly the wheels 2 and 3.
\<close>

theorem initVehicle_configuration:
  "mass (chassisBody (vehicle newGame)) = 1500
   \<and> position (chassisBody (vehicle newGame)) = (0, 4, 0)
   \<and> gravity newGame = (0, - 9.82, 0)
   \<and> length (wheelInfos (vehicle newGame)) = 4
   \<and> map chassisConnectionPointLocal (wheelInfos (vehicle newGame)) =
       [(- 1, - 0.4, 1.5), (1, - 0.4, 1.5), (- 1, - 0.4, - 1.5), (1, - 0.4, - 1.5)]
   \<and> indexForwardAxis (vehicle newGame) = 2
   \<and> (\<exists>g'. updateVehicle (newGame\<lparr>inputs := inp\<rparr>) = Inr g'
          \<and> map snd (steeringCalls (calls g')) = [0, 1]
          \<and> map snd (engineCalls (calls g')) = [2, 3])"
proof -
  have cfg: "mass (chassisBody (vehicle newGame)) = 1500
   \<and> position (chassisBody (vehicle newGame)) = (0, 4, 0)
   \<and> gravity newGame = (0, - 9.82, 0)
   \<and> length (wheelInfos (vehicle newGame)) = 4
   \<and> map chassisConnectionPointLocal (wheelInfos (vehicle newGame)) =
       [(- 1, - 0.4, 1.5), (1, - 0.4, 1.5), (- 1, - 0.4, - 1.5), (1, - 0.4, - 1.5)]
   \<and> indexForwardAxis (vehicle newGame) = 2"
    by (simp add: newGame_def initVehicle_def addWheel_def Let_def wheelOptions.extend_def)
  obtain a b c d where ws: "wheelInfos (vehicle (newGame\<lparr>inputs := inp\<rparr>)) = [a, b, c, d]"
    using newGame_wheelInfos by auto
  have "\<exists>g'. updateVehicle (newGame\<lparr>inputs := inp\<rparr>) = Inr g'
          \<and> map snd (steeringCalls (calls g')) = [0, 1]
          \<and> map snd (engineCalls (calls g')) = [2, 3]"
    by (simp add: updateVehicle_four [OF ws refl refl refl] newGame_calls
        steeringCalls_def engineCalls_def)
  with cfg show ?thesis by simp
qed

text \<open>
  Claim C10. The chassis is created with angular velocity (0, 0, 0.5), which is not
  zero: the initial state of every run, in which all five input flags are false, has
  this spin about axis 2, the vehicle's forward axis.
\<close>

theorem initVehicle_angularVelocity:
  "angularVelocity (chassisBody (vehicle newGame)) = (0, 0, 0.5)
   \<and> angularVelocity (chassisBody (vehicle newGame)) \<noteq> (0, 0, 0)
   \<and> indexForwardAxis (vehicle newGame) = 2
   \<and> inputs newGame = \<lparr>forward = False, backward = False, left = False, right = False,
                         brake = False\<rparr>"
  by (simp add: newGame_def initVehicle_def addWheel_def Let_def)

lemma newGame_inputs:
  "inputs newGame = \<lparr>forward = False, backward = False, left = False, right = False,
                     brake = False\<rparr>"
  by (simp add: newGame_def Let_def split: prod.splits)

section \<open>The per-frame update: conflicting inputs\<close>

text \<open>
  Claim C1, as stated, fails. The claim says that with forward and backward both held the
  update applies engine force 0 to the wheels 2 and 3, as when neither is held, and that
  with left and right both held it sets steering 0 on the wheels 0 and 1. With all four
  flags held, the update leaves engine force -1500 on the wheels 2 and 3 and steering 0.5
  on the wheels 0 and 1; with no flag held it leaves 0 everywhere.
\<close>

theorem updateVehicle_conflict_counterexample:
  "map_sum id engineForces
     (updateVehicle (newGame\<lparr>inputs := (inputs newGame)\<lparr>forward := True, backward := True,
                                                       left := True, right := True\<rparr>\<rparr>))
     = Inr [0, 0, - 1500, - 1500]
   \<and> map_sum id steerings
     (updateVehicle (newGame\<lparr>inputs := (inputs newGame)\<lparr>forward := True, backward := True,
                                                       left := True, right := True\<rparr>\<rparr>))
     = Inr [0.5, 0.5, 0, 0]
   \<and> map_sum id engineForces (updateVehicle newGame) = Inr [0, 0, 0, 0]
   \<and> map_sum id steerings (updateVehicle newGame) = Inr [0, 0, 0, 0]"
proof -
  obtain a b c d where ws: "wheelInfos (vehicle newGame) = [a, b, c, d]"
    and z: "controls a = (0, 0, 0)" "controls b = (0, 0, 0)"
           "controls c = (0, 0, 0)" "controls d = (0, 0, 0)"
    using newGame_wheelInfos by auto
  let ?G = "newGame\<lparr>inputs := (inputs newGame)\<lparr>forward := True, backward := True,
                                                 left := True, right := True\<rparr>\<rparr>"
  have ws': "wheelInfos (vehicle ?G) = [a, b, c, d]"
    using ws by simp
  note i0 = newGame_inputs
  have e1: "- engineForce = (if forward (inputs ?G) then - engineForce
                 else if backward (inputs ?G) then engineForce else 0)"
    and s1: "maxSteerVal = (if left (inputs ?G) then maxSteerVal
                 else if right (inputs ?G) then - maxSteerVal else 0)"
    and k1: "0 = (if brake (inputs ?G) then brakeForce else 0)"
    by (simp_all add: i0)
  have e0: "0 = (if forward (inputs newGame) then - engineForce
                 else if backward (inputs newGame) then engineForce else 0)"
    and s0: "0 = (if left (inputs newGame) then maxSteerVal
                 else if right (inputs newGame) then - maxSteerVal else 0)"
    and k0: "0 = (if brake (inputs newGame) then brakeForce else 0)"
    by (simp_all add: i0)
  show ?thesis
    using z
    by (simp add: updateVehicle_four [OF ws' e1 s1 k1]
        updateVehicle_four [OF ws e0 s0 k0]
        engineForces_def steerings_def controls_def engineForce_def maxSteerVal_def)
qed

text \<open>
  Claim C1, amended. The \<^verbatim>\<open>if\<close> chains test forward before backward and left before
  right. For every input state in which forward and backward are both held, the update
  applies \<open>- engineForce\<close> (-1500) to the wheels 2 and 3, and does exactly what it does
  when forward alone is held; for every input state in which left and right are both
  held, it sets steering \<open>maxSteerVal\<close> (0.5) on the wheels 0 and 1, and does exactly
  what it does when left alone is held.
\<close>

theorem updateVehicle_conflict_priority:
  assumes "length (wheelInfos (vehicle g)) = 4"
  shows "\<exists>g'. updateVehicle g = Inr g'
    \<and> (forward (inputs g) \<and> backward (inputs g) \<longrightarrow>
         engineCalls (calls g') = engineCalls (calls g) @ [(- engineForce, 2), (- engineForce, 3)]
         \<and> engineForces g' ! 2 = - engineForce \<and> engineForces g' ! 3 = - engineForce
         \<and> updateVehicle (g\<lparr>inputs := (inputs g)\<lparr>backward := False\<rparr>\<rparr>)
             = Inr (g'\<lparr>inputs := (inputs g)\<lparr>backward := False\<rparr>\<rparr>))
    \<and> (left (inputs g) \<and> right (inputs g) \<longrightarrow>
         steeringCalls (calls g') = steeringCalls (calls g) @ [(maxSteerVal, 0), (maxSteerVal, 1)]
         \<and> steerings g' ! 0 = maxSteerVal \<and> steerings g' ! 1 = maxSteerVal
         \<and> updateVehicle (g\<lparr>inputs := (inputs g)\<lparr>right := False\<rparr>\<rparr>)
             = Inr (g'\<lparr>inputs := (inputs g)\<lparr>right := False\<rparr>\<rparr>))
    \<and> engineForce = 1500 \<and> maxSteerVal = 0.5"
proof -
  obtain a b c d where ws: "wheelInfos (vehicle g) = [a, b, c, d]"
    using length4E [OF assms] by auto
  have wb: "wheelInfos (vehicle (g\<lparr>inputs := (inputs g)\<lparr>backward := False\<rparr>\<rparr>)) = [a, b, c, d]"
    and wr: "wheelInfos (vehicle (g\<lparr>inputs := (inputs g)\<lparr>right := False\<rparr>\<rparr>)) = [a, b, c, d]"
    using ws by simp_all
  show ?thesis
    by (simp add: updateVehicle_four [OF ws refl refl refl]
        updateVehicle_four [OF wb refl refl refl] updateVehicle_four [OF wr refl refl refl]
        engineCalls_def steeringCalls_def engineForces_def steerings_def
        engineForce_def maxSteerVal_def)
qed

theorem updateVehicle_conflict_priority_witness:
  "length (wheelInfos (vehicle (newGame\<lparr>inputs := (inputs newGame)\<lparr>forward := True,
       backward := True, left := True, right := True\<rparr>\<rparr>))) = 4
   \<and> (\<exists>g'. updateVehicle (newGame\<lparr>inputs := (inputs newGame)\<lparr>forward := True,
               backward := True, left := True, right := True\<rparr>\<rparr>) = Inr g'
         \<and> engineCalls (calls g') = [(- 1500, 2), (- 1500, 3)]
         \<and> steeringCalls (calls g') = [(0.5, 0), (0.5, 1)]
         \<and> engineForces g' ! 2 = - 1500 \<and> engineForces g' ! 3 = - 1500
         \<and> steerings g' ! 0 = 0.5 \<and> steerings g' ! 1 = 0.5)"
proof -
  let ?G = "newGame\<lparr>inputs := (inputs newGame)\<lparr>forward := True, backward := True,
                                                 left := True, right := True\<rparr>\<rparr>"
  have len: "length (wheelInfos (vehicle ?G)) = 4"
    using newGame_four by simp
  have held: "forward (inputs ?G) \<and> backward (inputs ?G)" "left (inputs ?G) \<and> right (inputs ?G)"
    by simp_all
  have c0: "calls ?G = []"
    by (simp add: newGame_calls)
  from updateVehicle_conflict_priority [OF len] held c0 len
  show ?thesis
    by (auto simp: engineCalls_def steeringCalls_def)
qed

section \<open>The per-frame update: steering and brake\<close>

text \<open>
  Claim C5. For every input state the update succeeds and steers as follows: left held
  and right not held, \<^verbatim>\<open>setSteeringValue(maxSteerVal, i)\<close> for \<open>i\<close> = 0 and 1; right
  held and left not held, \<^verbatim>\<open>setSteeringValue(-maxSteerVal, i)\<close> for \<open>i\<close> = 0 and 1;
  neither held, \<^verbatim>\<open>setSteeringValue(0, i)\<close> for \<open>i\<close> = 0 and 1. After the update the
  steering value of each front wheel lies between \<open>- maxSteerVal\<close> and \<open>maxSteerVal\<close>,
  and \<open>maxSteerVal\<close> is 0.5.
\<close>

theorem updateVehicle_steering_policy:
  assumes "length (wheelInfos (vehicle g)) = 4"
  shows "\<exists>g'. updateVehicle g = Inr g'
    \<and> (left (inputs g) \<and> \<not> right (inputs g) \<longrightarrow>
         steeringCalls (calls g') = steeringCalls (calls g) @ [(maxSteerVal, 0), (maxSteerVal, 1)]
         \<and> steerings g' ! 0 = maxSteerVal \<and> steerings g' ! 1 = maxSteerVal)
    \<and> (right (inputs g) \<and> \<not> left (inputs g) \<longrightarrow>
         steeringCalls (calls g') = steeringCalls (calls g) @ [(- maxSteerVal, 0), (- maxSteerVal, 1)]
         \<and> steerings g' ! 0 = - maxSteerVal \<and> steerings g' ! 1 = - maxSteerVal)
    \<and> (\<not> left (inputs g) \<and> \<not> right (inputs g) \<longrightarrow>
         steeringCalls (calls g') = steeringCalls (calls g) @ [(0, 0), (0, 1)]
         \<and> steerings g' ! 0 = 0 \<and> steerings g' ! 1 = 0)
    \<and> - maxSteerVal \<le> steerings g' ! 0 \<and> steerings g' ! 0 \<le> maxSteerVal
    \<and> - maxSteerVal \<le> steerings g' ! 1 \<and> steerings g' ! 1 \<le> maxSteerVal
    \<and> maxSteerVal = 0.5"
proof -
  obtain a b c d where ws: "wheelInfos (vehicle g) = [a, b, c, d]"
    using length4E [OF assms] by auto
  show ?thesis
    by (simp add: updateVehicle_four [OF ws refl refl refl]
        steeringCalls_def steerings_def maxSteerVal_def)
qed

theorem updateVehicle_steering_policy_witness:
  "(\<exists>g'. updateVehicle (newGame\<lparr>inputs := (inputs newGame)\<lparr>left := True\<rparr>\<rparr>) = Inr g'
       \<and> steeringCalls (calls g') = [(0.5, 0), (0.5, 1)]
       \<and> steerings g' ! 0 = 0.5 \<and> steerings g' ! 1 = 0.5)
   \<and> (\<exists>g'. updateVehicle (newGame\<lparr>inputs := (inputs newGame)\<lparr>right := True\<rparr>\<rparr>) = Inr g'
       \<and> steeringCalls (calls g') = [(- 0.5, 0), (- 0.5, 1)]
       \<and> steerings g' ! 0 = - 0.5 \<and> steerings g' ! 1 = - 0.5)
   \<and> (\<exists>g'. updateVehicle newGame = Inr g'
       \<and> steeringCalls (calls g') = [(0, 0), (0, 1)]
       \<and> steerings g' ! 0 = 0 \<and> steerings g' ! 1 = 0)"
proof -
  let ?L = "newGame\<lparr>inputs := (inputs newGame)\<lparr>left := True\<rparr>\<rparr>"
  let ?R = "newGame\<lparr>inputs := (inputs newGame)\<lparr>right := True\<rparr>\<rparr>"
  have len: "length (wheelInfos (vehicle ?L)) = 4" "length (wheelInfos (vehicle ?R)) = 4"
    "length (wheelInfos (vehicle newGame)) = 4"
    using newGame_four by simp_all
  have hl: "left (inputs ?L) \<and> \<not> right (inputs ?L)"
    and hr: "right (inputs ?R) \<and> \<not> left (inputs ?R)"
    and hn: "\<not> left (inputs newGame) \<and> \<not> right (inputs newGame)"
    by (simp_all add: newGame_inputs)
  have c0: "calls ?L = []" "calls ?R = []" "calls newGame = []"
    by (simp_all add: newGame_calls)
  have l: "\<exists>g'. updateVehicle ?L = Inr g'
       \<and> steeringCalls (calls g') = [(0.5, 0), (0.5, 1)]
       \<and> steerings g' ! 0 = 0.5 \<and> steerings g' ! 1 = 0.5"
    using updateVehicle_steering_policy [OF len(1)] hl c0(1)
    by (auto simp: steeringCalls_def)
  have r: "\<exists>g'. updateVehicle ?R = Inr g'
       \<and> steeringCalls (calls g') = [(- 0.5, 0), (- 0.5, 1)]
       \<and> steerings g' ! 0 = - 0.5 \<and> steerings g' ! 1 = - 0.5"
    using updateVehicle_steering_policy [OF len(2)] hr c0(2)
    by (auto simp: steeringCalls_def)
  have n: "\<exists>g'. updateVehicle newGame = Inr g'
       \<and> steeringCalls (calls g') = [(0, 0), (0, 1)]
       \<and> steerings g' ! 0 = 0 \<and> steerings g' ! 1 = 0"
    using updateVehicle_steering_policy [OF len(3)] hn c0(3)
    by (auto simp: steeringCalls_def)
  from l r n show ?thesis by blast
qed

text \<open>
  Claim C6. For every input state the update succeeds and brakes all four wheels alike:
  with the brake flag true, \<^verbatim>\<open>setBrake(brakeForce, i)\<close> for \<open>i\<close> = 0 to 3, with
  \<open>brakeForce\<close> = 100; with the flag false, \<^verbatim>\<open>setBrake(0, i)\<close> for \<open>i\<close> = 0 to 3.
  The brake fields after the update are these values whatever they were before: the
  field is overwritten, not accumulated.
\<close>

theorem updateVehicle_brake_policy:
  assumes "length (wheelInfos (vehicle g)) = 4"
  shows "\<exists>g'. updateVehicle g = Inr g'
    \<and> (brake (inputs g) \<longrightarrow>
         brakeCalls (calls g') = brakeCalls (calls g) @
           [(brakeForce, 0), (brakeForce, 1), (brakeForce, 2), (brakeForce, 3)]
         \<and> brakes g' = [brakeForce, brakeForce, brakeForce, brakeForce])
    \<and> (\<not> brake (inputs g) \<longrightarrow>
         brakeCalls (calls g') = brakeCalls (calls g) @ [(0, 0), (0, 1), (0, 2), (0, 3)]
         \<and> brakes g' = [0, 0, 0, 0])
    \<and> brakeForce = 100"
proof -
  obtain a b c d where ws: "wheelInfos (vehicle g) = [a, b, c, d]"
    using length4E [OF assms] by auto
  show ?thesis
    by (simp add: updateVehicle_four [OF ws refl refl refl]
        brakeCalls_def brakes_def brakeForce_def)
qed

theorem updateVehicle_brake_policy_witness:
  "(\<exists>g'. updateVehicle (newGame\<lparr>inputs := (inputs newGame)\<lparr>brake := True\<rparr>\<rparr>) = Inr g'
       \<and> brakeCalls (calls g') = [(100, 0), (100, 1), (100, 2), (100, 3)]
       \<and> brakes g' = [100, 100, 100, 100]
       \<and> (\<exists>g''. updateVehicle (g'\<lparr>inputs := (inputs g')\<lparr>brake := False\<rparr>\<rparr>) = Inr g''
             \<and> brakes g'' = [0, 0, 0, 0]))"
proof -
  let ?B = "newGame\<lparr>inputs := (inputs newGame)\<lparr>brake := True\<rparr>\<rparr>"
  have len: "length (wheelInfos (vehicle ?B)) = 4"
    using newGame_four by simp
  have hb: "brake (inputs ?B)" by simp
  have c0: "calls ?B = []" by (simp add: newGame_calls)
  from updateVehicle_brake_policy [OF len] hb c0
  obtain g' where g': "updateVehicle ?B = Inr g'"
      "brakeCalls (calls g') = [(100, 0), (100, 1), (100, 2), (100, 3)]"
      "brakes g' = [100, 100, 100, 100]"
    by (auto simp: brakeCalls_def)
  let ?N = "g'\<lparr>inputs := (inputs g')\<lparr>brake := False\<rparr>\<rparr>"
  have "length (brakes g') = 4" using g'(3) by simp
  then have len': "length (wheelInfos (vehicle ?N)) = 4"
    by (simp add: brakes_def)
  have hn: "\<not> brake (inputs ?N)" by simp
  from updateVehicle_brake_policy [OF len'] hn
  obtain g'' where "updateVehicle ?N = Inr g''" "brakes g'' = [0, 0, 0, 0]"
    by auto
  with g' show ?thesis by blast
qed

section \<open>The life of the process\<close>

lemma animate_four_log:
  assumes ws: "wheelInfos (vehicle g) = [a, b, c, d]"
    and vs: "length (wheelVisuals g) = 4"
  shows "\<exists>g' e s k. animate delta g = Inr g'
    \<and> wheelInfos (vehicle g') =
        [a\<lparr>steering := s, wheel_brake := k\<rparr>, b\<lparr>steering := s, wheel_brake := k\<rparr>,
         c\<lparr>wheel_engineForce := e, wheel_brake := k\<rparr>,
         d\<lparr>wheel_engineForce := e, wheel_brake := k\<rparr>]
    \<and> length (wheelVisuals g') = 4
    \<and> engineCalls (calls g') = engineCalls (calls g) @ [(e, 2), (e, 3)]
    \<and> steeringCalls (calls g') = steeringCalls (calls g) @ [(s, 0), (s, 1)]
    \<and> calls g' = calls g @
      [RequestAnimationFrame, GetDelta,
       WorldStep (1 / 60) delta [controls a, controls b, controls c, controls d],
       ApplyEngineForce e 2, ApplyEngineForce e 3,
       SetSteeringValue s 0, SetSteeringValue s 1,
       SetBrake k 0, SetBrake k 1, SetBrake k 2, SetBrake k 3,
       CopyChassisPosition, CopyChassisQuaternion,
       UpdateWheelTransform 0, CopyWheelPosition 0, CopyWheelQuaternion 0,
       UpdateWheelTransform 1, CopyWheelPosition 1, CopyWheelQuaternion 1,
       UpdateWheelTransform 2, CopyWheelPosition 2, CopyWheelQuaternion 2,
       UpdateWheelTransform 3, CopyWheelPosition 3, CopyWheelQuaternion 3,
       FollowCamera, ShowSpeed, Render]"
proof -
  define e where "e = (if forward (inputs g) then - engineForce
                 else if backward (inputs g) then engineForce else 0)"
  define s where "s = (if left (inputs g) then maxSteerVal
                 else if right (inputs g) then - maxSteerVal else 0)"
  define k where "k = (if brake (inputs g) then brakeForce else 0)"
  note an = animate_four [OF ws vs e_def s_def k_def, of delta]
  obtain g' where g': "animate delta g = Inr g'" using an by simp
  have w: "wheelInfos (vehicle g') =
        [a\<lparr>steering := s, wheel_brake := k\<rparr>, b\<lparr>steering := s, wheel_brake := k\<rparr>,
         c\<lparr>wheel_engineForce := e, wheel_brake := k\<rparr>,
         d\<lparr>wheel_engineForce := e, wheel_brake := k\<rparr>]"
    and v: "length (wheelVisuals g') = 4"
    using g' vs unfolding an by auto
  have c: "calls g' = calls g @
      [RequestAnimationFrame, GetDelta,
       WorldStep (1 / 60) delta [controls a, controls b, controls c, controls d],
       ApplyEngineForce e 2, ApplyEngineForce e 3,
       SetSteeringValue s 0, SetSteeringValue s 1,
       SetBrake k 0, SetBrake k 1, SetBrake k 2, SetBrake k 3,
       CopyChassisPosition, CopyChassisQuaternion,
       UpdateWheelTransform 0, CopyWheelPosition 0, CopyWheelQuaternion 0,
       UpdateWheelTransform 1, CopyWheelPosition 1, CopyWheelQuaternion 1,
       UpdateWheelTransform 2, CopyWheelPosition 2, CopyWheelQuaternion 2,
       UpdateWheelTransform 3, CopyWheelPosition 3, CopyWheelQuaternion 3,
       FollowCamera, ShowSpeed, Render]"
    using g' unfolding an by auto
  have ec: "engineCalls (calls g') = engineCalls (calls g) @ [(e, 2), (e, 3)]"
    by (simp add: c engineCalls_def)
  have sc: "steeringCalls (calls g') = steeringCalls (calls g) @ [(s, 0), (s, 1)]"
    by (simp add: c steeringCalls_def)
  from g' w v ec sc c show ?thesis by blast
qed

lemma frames_controls:
  assumes "wheelInfos (vehicle g) = [a, b, c, d]" "length (wheelVisuals g) = 4"
    "wheel_engineForce a = 0" "wheel_engineForce b = 0" "steering c = 0" "steering d = 0"
    "snd ` set (engineCalls (calls g)) \<subseteq> {2, 3}"
    "snd ` set (steeringCalls (calls g)) \<subseteq> {0, 1}"
  shows "\<exists>g' a' b' c' d'. frames fs g = Inr g'
    \<and> wheelInfos (vehicle g') = [a', b', c', d']
    \<and> wheel_engineForce a' = 0 \<and> wheel_engineForce b' = 0
    \<and> steering c' = 0 \<and> steering d' = 0
    \<and> snd ` set (engineCalls (calls g')) \<subseteq> {2, 3}
    \<and> snd ` set (steeringCalls (calls g')) \<subseteq> {0, 1}"
  using assms
proof (induction fs arbitrary: g a b c d)
  case Nil
  then show ?case by simp
next
  case (Cons f fs)
  obtain inp delta where f: "f = (inp, delta)" by (cases f)
  let ?g = "g\<lparr>inputs := inp\<rparr>"
  have ws: "wheelInfos (vehicle ?g) = [a, b, c, d]" and vs: "length (wheelVisuals ?g) = 4"
    using Cons.prems by simp_all
  from animate_four_log [OF ws vs, of delta]
  obtain g1 e s k where g1: "animate delta ?g = Inr g1"
    and w1: "wheelInfos (vehicle g1) =
        [a\<lparr>steering := s, wheel_brake := k\<rparr>, b\<lparr>steering := s, wheel_brake := k\<rparr>,
         c\<lparr>wheel_engineForce := e, wheel_brake := k\<rparr>,
         d\<lparr>wheel_engineForce := e, wheel_brake := k\<rparr>]"
    and v1: "length (wheelVisuals g1) = 4"
    and e1: "engineCalls (calls g1) = engineCalls (calls ?g) @ [(e, 2), (e, 3)]"
    and s1: "steeringCalls (calls g1) = steeringCalls (calls ?g) @ [(s, 0), (s, 1)]"
    by blast
  have step: "frames (f # fs) g = frames fs g1"
    using g1 by (simp add: f)
  have "\<exists>g' a' b' c' d'. frames fs g1 = Inr g'
    \<and> wheelInfos (vehicle g') = [a', b', c', d']
    \<and> wheel_engineForce a' = 0 \<and> wheel_engineForce b' = 0
    \<and> steering c' = 0 \<and> steering d' = 0
    \<and> snd ` set (engineCalls (calls g')) \<subseteq> {2, 3}
    \<and> snd ` set (steeringCalls (calls g')) \<subseteq> {0, 1}"
  proof (rule Cons.IH [OF w1 v1])
    show "snd ` set (engineCalls (calls g1)) \<subseteq> {2, 3}"
      using Cons.prems(7) by (simp add: e1)
    show "snd ` set (steeringCalls (calls g1)) \<subseteq> {0, 1}"
      using Cons.prems(8) by (simp add: s1)
  qed (use Cons.prems in simp_all)
  then show ?case unfolding step .
qed

lemma readsFresh_append:
  "readsFresh st (xs @ ys) =
     (case readsFresh st xs of None \<Rightarrow> None | Some st' \<Rightarrow> readsFresh st' ys)"
  by (induction xs arbitrary: st) (auto split: option.splits)

lemma readsFresh_frame:
  "readsFresh st
      [RequestAnimationFrame, GetDelta, WorldStep dt delta cs,
       ApplyEngineForce e 2, ApplyEngineForce e 3,
       SetSteeringValue s 0, SetSteeringValue s 1,
       SetBrake k 0, SetBrake k 1, SetBrake k 2, SetBrake k 3,
       CopyChassisPosition, CopyChassisQuaternion,
       UpdateWheelTransform 0, CopyWheelPosition 0, CopyWheelQuaternion 0,
       UpdateWheelTransform 1, CopyWheelPosition 1, CopyWheelQuaternion 1,
       UpdateWheelTransform 2, CopyWheelPosition 2, CopyWheelQuaternion 2,
       UpdateWheelTransform 3, CopyWheelPosition 3, CopyWheelQuaternion 3,
       FollowCamera, ShowSpeed, Render] = Some (True, {0, 1, 2, 3})"
  by (cases st) auto

lemma frames_reads:
  assumes "wheelInfos (vehicle g) = [a, b, c, d]" "length (wheelVisuals g) = 4"
    "readsFresh (False, {}) (calls g) = Some st"
  shows "\<exists>g' a' b' c' d'. frames fs g = Inr g'
    \<and> wheelInfos (vehicle g') = [a', b', c', d']
    \<and> length (wheelVisuals g') = 4
    \<and> readsFresh (False, {}) (calls g') = Some (if fs = [] then st else (True, {0, 1, 2, 3}))
    \<and> transformUpdates (calls g') =
        transformUpdates (calls g) @ concat (replicate (length fs) [0, 1, 2, 3])
    \<and> positionReads (calls g') =
        positionReads (calls g) @ concat (replicate (length fs) [0, 1, 2, 3])
    \<and> quaternionReads (calls g') =
        quaternionReads (calls g) @ concat (replicate (length fs) [0, 1, 2, 3])
    \<and> length (stepCalls (calls g')) = length (stepCalls (calls g)) + length fs"
  using assms
proof (induction fs arbitrary: g a b c d st)
  case Nil
  then show ?case by simp
next
  case (Cons f fs)
  obtain inp delta where f: "f = (inp, delta)" by (cases f)
  let ?g = "g\<lparr>inputs := inp\<rparr>"
  have ws: "wheelInfos (vehicle ?g) = [a, b, c, d]" and vs: "length (wheelVisuals ?g) = 4"
    using Cons.prems by simp_all
  from animate_four_log [OF ws vs, of delta]
  obtain g1 e s k where g1: "animate delta ?g = Inr g1"
    and w1: "wheelInfos (vehicle g1) =
        [a\<lparr>steering := s, wheel_brake := k\<rparr>, b\<lparr>steering := s, wheel_brake := k\<rparr>,
         c\<lparr>wheel_engineForce := e, wheel_brake := k\<rparr>,
         d\<lparr>wheel_engineForce := e, wheel_brake := k\<rparr>]"
    and v1: "length (wheelVisuals g1) = 4"
    and c1: "calls g1 = calls ?g @
      [RequestAnimationFrame, GetDelta,
       WorldStep (1 / 60) delta [controls a, controls b, controls c, controls d],
       ApplyEngineForce e 2, ApplyEngineForce e 3,
       SetSteeringValue s 0, SetSteeringValue s 1,
       SetBrake k 0, SetBrake k 1, SetBrake k 2, SetBrake k 3,
       CopyChassisPosition, CopyChassisQuaternion,
       UpdateWheelTransform 0, CopyWheelPosition 0, CopyWheelQuaternion 0,
       UpdateWheelTransform 1, CopyWheelPosition 1, CopyWheelQuaternion 1,
       UpdateWheelTransform 2, CopyWheelPosition 2, CopyWheelQuaternion 2,
       UpdateWheelTransform 3, CopyWheelPosition 3, CopyWheelQuaternion 3,
       FollowCamera, ShowSpeed, Render]"
    by blast
  have cg: "calls ?g = calls g" by simp
  have r1: "readsFresh (False, {}) (calls g1) = Some (True, {0, 1, 2, 3})"
    unfolding c1 cg by (simp only: readsFresh_append Cons.prems(3) option.case readsFresh_frame)
  have u1: "transformUpdates (calls g1) = transformUpdates (calls g) @ [0, 1, 2, 3]"
    and p1: "positionReads (calls g1) = positionReads (calls g) @ [0, 1, 2, 3]"
    and q1: "quaternionReads (calls g1) = quaternionReads (calls g) @ [0, 1, 2, 3]"
    and n1: "length (stepCalls (calls g1)) = length (stepCalls (calls g)) + 1"
    unfolding c1 cg
    by (simp_all add: transformUpdates_def positionReads_def quaternionReads_def stepCalls_def)
  have step: "frames (f # fs) g = frames fs g1"
    using g1 by (simp add: f)
  from Cons.IH [OF w1 v1 r1]
  show ?case unfolding step by (auto simp: u1 p1 q1 n1)
qed

text \<open>
  Claim C9. Over any sequence of frames from the initial state, with any input states and
  clock readings, no frame fails, \<^verbatim>\<open>applyEngineForce\<close> is called on wheel indices 2 and
  3 only and \<^verbatim>\<open>setSteeringValue\<close> on wheel indices 0 and 1 only, and the engine force
  of the wheels 0 and 1 and the steering of the wheels 2 and 3 are still 0.
\<close>

theorem front_never_driven_rear_never_steered:
  "\<exists>g'. frames fs newGame = Inr g'
    \<and> engineForces g' ! 0 = 0 \<and> engineForces g' ! 1 = 0
    \<and> steerings g' ! 2 = 0 \<and> steerings g' ! 3 = 0
    \<and> snd ` set (engineCalls (calls g')) \<subseteq> {2, 3}
    \<and> snd ` set (steeringCalls (calls g')) \<subseteq> {0, 1}"
proof -
  obtain a b c d where ws: "wheelInfos (vehicle newGame) = [a, b, c, d]"
    and z: "controls a = (0, 0, 0)" "controls b = (0, 0, 0)"
           "controls c = (0, 0, 0)" "controls d = (0, 0, 0)"
    using newGame_wheelInfos by auto
  have vs: "length (wheelVisuals newGame) = 4" using newGame_four by simp
  have "\<exists>g' a' b' c' d'. frames fs newGame = Inr g'
    \<and> wheelInfos (vehicle g') = [a', b', c', d']
    \<and> wheel_engineForce a' = 0 \<and> wheel_engineForce b' = 0
    \<and> steering c' = 0 \<and> steering d' = 0
    \<and> snd ` set (engineCalls (calls g')) \<subseteq> {2, 3}
    \<and> snd ` set (steeringCalls (calls g')) \<subseteq> {0, 1}"
    using z by (intro frames_controls [OF ws vs])
      (simp_all add: controls_def newGame_calls engineCalls_def steeringCalls_def)
  then show ?thesis
    by (auto simp: engineForces_def steerings_def)
qed

theorem front_never_driven_rear_never_steered_witness:
  "\<exists>g'. frames [(inputs newGame, 0),
                   ((inputs newGame)\<lparr>forward := True, left := True\<rparr>, 1 / 60)] newGame = Inr g'
    \<and> engineForces g' ! 0 = 0 \<and> engineForces g' ! 1 = 0
    \<and> steerings g' ! 2 = 0 \<and> steerings g' ! 3 = 0
    \<and> snd ` set (engineCalls (calls g')) \<subseteq> {2, 3}
    \<and> snd ` set (steeringCalls (calls g')) \<subseteq> {0, 1}"
  by (rule front_never_driven_rear_never_steered)

text \<open>
  Claim C3. In every frame of every run, for every wheel index 0 to 3, the wheel's world
  transform is recomputed by \<^verbatim>\<open>updateWheelTransform\<close> after that frame's physics step
  and before it is copied to the wheel's visual. Over any sequence of frames from the
  initial state, with any input states and clock readings:
  \<^item> no frame fails, and the monitor \<open>readsFresh\<close> accepts the whole log: every copy of
    a transform comes, within its frame, after the step of that frame and after the
    recomputation of that wheel's transform that follows the step;
  \<^item> every frame makes one step, recomputes the transforms of the wheels 0, 1, 2, 3 and
    copies the position and the quaternion of each of them;
  \<^item> the next frame, whatever its inputs and clock reading, makes exactly these calls in
    this order: the step; the eight setter calls of the update; the copy of the chassis
    pose; then for each wheel 0, 1, 2, 3 in turn \<^verbatim>\<open>updateWheelTransform(i)\<close>, the copy of
    the position and the copy of the quaternion; then camera, speed display and render,
    with no further step.
\<close>

theorem wheel_transforms_fresh_when_read:
  "\<exists>g'. frames fs newGame = Inr g'
    \<and> readsFresh (False, {}) (calls g') =
        Some (if fs = [] then (False, {}) else (True, {0, 1, 2, 3}))
    \<and> length (stepCalls (calls g')) = length fs
    \<and> transformUpdates (calls g') = concat (replicate (length fs) [0, 1, 2, 3])
    \<and> positionReads (calls g') = concat (replicate (length fs) [0, 1, 2, 3])
    \<and> quaternionReads (calls g') = concat (replicate (length fs) [0, 1, 2, 3])
    \<and> (\<exists>g'' e s k. animate delta (g'\<lparr>inputs := inp\<rparr>) = Inr g''
          \<and> calls g'' = calls g' @
              [RequestAnimationFrame, GetDelta,
               WorldStep (1 / 60) delta (map controls (wheelInfos (vehicle g'))),
               ApplyEngineForce e 2, ApplyEngineForce e 3,
               SetSteeringValue s 0, SetSteeringValue s 1,
               SetBrake k 0, SetBrake k 1, SetBrake k 2, SetBrake k 3,
               CopyChassisPosition, CopyChassisQuaternion,
               UpdateWheelTransform 0, CopyWheelPosition 0, CopyWheelQuaternion 0,
               UpdateWheelTransform 1, CopyWheelPosition 1, CopyWheelQuaternion 1,
               UpdateWheelTransform 2, CopyWheelPosition 2, CopyWheelQuaternion 2,
               UpdateWheelTransform 3, CopyWheelPosition 3, CopyWheelQuaternion 3,
               FollowCamera, ShowSpeed, Render]
          \<and> readsFresh (False, {}) (calls g'') = Some (True, {0, 1, 2, 3}))"
proof -
  obtain a b c d where ws: "wheelInfos (vehicle newGame) = [a, b, c, d]"
    using newGame_wheelInfos by auto
  have vs: "length (wheelVisuals newGame) = 4" using newGame_four by simp
  have rf: "readsFresh (False, {}) (calls newGame) = Some (False, {})"
    by (simp add: newGame_calls)
  from frames_reads [OF ws vs rf, of fs]
  obtain g' a' b' c' d' where g': "frames fs newGame = Inr g'"
    and w': "wheelInfos (vehicle g') = [a', b', c', d']"
    and v': "length (wheelVisuals g') = 4"
    and r': "readsFresh (False, {}) (calls g') =
        Some (if fs = [] then (False, {}) else (True, {0, 1, 2, 3}))"
    and n': "length (stepCalls (calls g')) = length fs"
    and u': "transformUpdates (calls g') = concat (replicate (length fs) [0, 1, 2, 3])"
    and p': "positionReads (calls g') = concat (replicate (length fs) [0, 1, 2, 3])"
    and q': "quaternionReads (calls g') = concat (replicate (length fs) [0, 1, 2, 3])"
    by (auto simp: newGame_calls transformUpdates_def positionReads_def quaternionReads_def
        stepCalls_def)
  let ?g = "g'\<lparr>inputs := inp\<rparr>"
  have wn: "wheelInfos (vehicle ?g) = [a', b', c', d']"
    and vn: "length (wheelVisuals ?g) = 4"
    using w' v' by simp_all
  from animate_four_log [OF wn vn, of delta]
  obtain g'' e s k where g'': "animate delta ?g = Inr g''"
    and c'': "calls g'' = calls ?g @
      [RequestAnimationFrame, GetDelta,
       WorldStep (1 / 60) delta [controls a', controls b', controls c', controls d'],
       ApplyEngineForce e 2, ApplyEngineForce e 3,
       SetSteeringValue s 0, SetSteeringValue s 1,
       SetBrake k 0, SetBrake k 1, SetBrake k 2, SetBrake k 3,
       CopyChassisPosition, CopyChassisQuaternion,
       UpdateWheelTransform 0, CopyWheelPosition 0, CopyWheelQuaternion 0,
       UpdateWheelTransform 1, CopyWheelPosition 1, CopyWheelQuaternion 1,
       UpdateWheelTransform 2, CopyWheelPosition 2, CopyWheelQuaternion 2,
       UpdateWheelTransform 3, CopyWheelPosition 3, CopyWheelQuaternion 3,
       FollowCamera, ShowSpeed, Render]"
    by blast
  have cg: "calls ?g = calls g'" by simp
  have r'': "readsFresh (False, {}) (calls g'') = Some (True, {0, 1, 2, 3})"
    unfolding c'' cg by (simp only: readsFresh_append r' option.case readsFresh_frame)
  have c3: "calls g'' = calls g' @
      [RequestAnimationFrame, GetDelta,
       WorldStep (1 / 60) delta (map controls (wheelInfos (vehicle g'))),
       ApplyEngineForce e 2, ApplyEngineForce e 3,
       SetSteeringValue s 0, SetSteeringValue s 1,
       SetBrake k 0, SetBrake k 1, SetBrake k 2, SetBrake k 3,
       CopyChassisPosition, CopyChassisQuaternion,
       UpdateWheelTransform 0, CopyWheelPosition 0, CopyWheelQuaternion 0,
       UpdateWheelTransform 1, CopyWheelPosition 1, CopyWheelQuaternion 1,
       UpdateWheelTransform 2, CopyWheelPosition 2, CopyWheelQuaternion 2,
       UpdateWheelTransform 3, CopyWheelPosition 3, CopyWheelQuaternion 3,
       FollowCamera, ShowSpeed, Render]"
    unfolding c'' cg by (simp add: w')
  from g' r' n' u' p' q' g'' c3 r'' show ?thesis by blast
qed

theorem wheel_transforms_fresh_when_read_witness:
  "\<exists>g'. frames [(inputs newGame, 0),
                   ((inputs newGame)\<lparr>forward := True, left := True\<rparr>, 1 / 60)] newGame = Inr g'
    \<and> readsFresh (False, {}) (calls g') = Some (True, {0, 1, 2, 3})
    \<and> length (stepCalls (calls g')) = 2
    \<and> transformUpdates (calls g') = [0, 1, 2, 3, 0, 1, 2, 3]
    \<and> positionReads (calls g') = [0, 1, 2, 3, 0, 1, 2, 3]
    \<and> quaternionReads (calls g') = [0, 1, 2, 3, 0, 1, 2, 3]
    \<and> (\<exists>g'' e s k. animate (1 / 60) (g'\<lparr>inputs := inputs newGame\<rparr>) = Inr g''
          \<and> calls g'' = calls g' @
              [RequestAnimationFrame, GetDelta,
               WorldStep (1 / 60) (1 / 60) (map controls (wheelInfos (vehicle g'))),
               ApplyEngineForce e 2, ApplyEngineForce e 3,
               SetSteeringValue s 0, SetSteeringValue s 1,
               SetBrake k 0, SetBrake k 1, SetBrake k 2, SetBrake k 3,
               CopyChassisPosition, CopyChassisQuaternion,
               UpdateWheelTransform 0, CopyWheelPosition 0, CopyWheelQuaternion 0,
               UpdateWheelTransform 1, CopyWheelPosition 1, CopyWheelQuaternion 1,
               UpdateWheelTransform 2, CopyWheelPosition 2, CopyWheelQuaternion 2,
               UpdateWheelTransform 3, CopyWheelPosition 3, CopyWheelQuaternion 3,
               FollowCamera, ShowSpeed, Render]
          \<and> readsFresh (False, {}) (calls g'') = Some (True, {0, 1, 2, 3}))"
proof -
  let ?fs = "[(inputs newGame, 0), ((inputs newGame)\<lparr>forward := True, left := True\<rparr>, 1 / 60)]
               :: (inputState \<times> real) list"
  from wheel_transforms_fresh_when_read [of ?fs "1 / 60" "inputs newGame"]
  obtain g' g'' e s k where g': "frames ?fs newGame = Inr g'"
    and r: "readsFresh (False, {}) (calls g') =
        Some (if ?fs = [] then (False, {}) else (True, {0, 1, 2, 3}))"
    and n: "length (stepCalls (calls g')) = length ?fs"
    and u: "transformUpdates (calls g') = concat (replicate (length ?fs) [0, 1, 2, 3])"
    and p: "positionReads (calls g') = concat (replicate (length ?fs) [0, 1, 2, 3])"
    and q: "quaternionReads (calls g') = concat (replicate (length ?fs) [0, 1, 2, 3])"
    and g'': "animate (1 / 60) (g'\<lparr>inputs := inputs newGame\<rparr>) = Inr g''"
    and c: "calls g'' = calls g' @
              [RequestAnimationFrame, GetDelta,
               WorldStep (1 / 60) (1 / 60) (map controls (wheelInfos (vehicle g'))),
               ApplyEngineForce e 2, ApplyEngineForce e 3,
               SetSteeringValue s 0, SetSteeringValue s 1,
               SetBrake k 0, SetBrake k 1, SetBrake k 2, SetBrake k 3,
               CopyChassisPosition, CopyChassisQuaternion,
               UpdateWheelTransform 0, CopyWheelPosition 0, CopyWheelQuaternion 0,
               UpdateWheelTransform 1, CopyWheelPosition 1, CopyWheelQuaternion 1,
               UpdateWheelTransform 2, CopyWheelPosition 2, CopyWheelQuaternion 2,
               UpdateWheelTransform 3, CopyWheelPosition 3, CopyWheelQuaternion 3,
               FollowCamera, ShowSpeed, Render]"
    and r2: "readsFresh (False, {}) (calls g'') = Some (True, {0, 1, 2, 3})"
    by blast
  have r': "readsFresh (False, {}) (calls g') = Some (True, {0, 1, 2, 3})"
    using r by simp
  have n': "length (stepCalls (calls g')) = 2"
    using n by simp
  have two: "replicate (length ?fs) [0, 1, 2, 3 :: nat] = [[0, 1, 2, 3], [0, 1, 2, 3]]"
    by (simp add: numeral_2_eq_2)
  have u': "transformUpdates (calls g') = [0, 1, 2, 3, 0, 1, 2, 3]"
    and p': "positionReads (calls g') = [0, 1, 2, 3, 0, 1, 2, 3]"
    and q': "quaternionReads (calls g') = [0, 1, 2, 3, 0, 1, 2, 3]"
    unfolding u p q two by simp_all
  from g' r' n' u' p' q' g'' c r2 show ?thesis by blast
qed

section \<open>The frame: order of the update and the step\<close>

text \<open>
  Claim C2, as stated, fails. The claim says that in every frame the update runs before
  that frame's physics step, so that the values read from the current input flags are in
  effect during the step. Take the constructor's first frame, with no key held, and a
  second frame in which forward is held. The calls of the second frame (the first frame
  makes 28) are: the step, called while the engine force of every wheel is still 0, and
  only then \<^verbatim>\<open>applyEngineForce(-1500, 2)\<close> and the rest of the update.
\<close>

theorem animate_update_before_step_counterexample:
  "map_sum id (drop 28 \<circ> calls)
     (frames [(inputs newGame, 0), ((inputs newGame)\<lparr>forward := True\<rparr>, 1 / 60)] newGame)
   = Inr [RequestAnimationFrame, GetDelta,
          WorldStep (1 / 60) (1 / 60) [(0, 0, 0), (0, 0, 0), (0, 0, 0), (0, 0, 0)],
          ApplyEngineForce (- 1500) 2, ApplyEngineForce (- 1500) 3,
          SetSteeringValue 0 0, SetSteeringValue 0 1,
          SetBrake 0 0, SetBrake 0 1, SetBrake 0 2, SetBrake 0 3,
          CopyChassisPosition, CopyChassisQuaternion,
          UpdateWheelTransform 0, CopyWheelPosition 0, CopyWheelQuaternion 0,
          UpdateWheelTransform 1, CopyWheelPosition 1, CopyWheelQuaternion 1,
          UpdateWheelTransform 2, CopyWheelPosition 2, CopyWheelQuaternion 2,
          UpdateWheelTransform 3, CopyWheelPosition 3, CopyWheelQuaternion 3,
          FollowCamera, ShowSpeed, Render]"
proof -
  obtain a b c d where ws: "wheelInfos (vehicle newGame) = [a, b, c, d]"
    and z: "controls a = (0, 0, 0)" "controls b = (0, 0, 0)"
           "controls c = (0, 0, 0)" "controls d = (0, 0, 0)"
    using newGame_wheelInfos by auto
  let ?g0 = "newGame\<lparr>inputs := inputs newGame\<rparr>"
  have w0: "wheelInfos (vehicle ?g0) = [a, b, c, d]"
    and v0: "length (wheelVisuals ?g0) = 4"
    using ws newGame_four by simp_all
  have e0: "0 = (if forward (inputs ?g0) then - engineForce
                 else if backward (inputs ?g0) then engineForce else 0)"
    and s0: "0 = (if left (inputs ?g0) then maxSteerVal
                 else if right (inputs ?g0) then - maxSteerVal else 0)"
    and k0: "0 = (if brake (inputs ?g0) then brakeForce else 0)"
    by (simp_all add: newGame_inputs)
  note an0 = animate_four [OF w0 v0 e0 s0 k0, of 0]
  obtain g1 where g1: "animate 0 ?g0 = Inr g1" using an0 by simp
  have w1: "wheelInfos (vehicle g1) =
        [a\<lparr>steering := 0, wheel_brake := 0\<rparr>, b\<lparr>steering := 0, wheel_brake := 0\<rparr>,
         c\<lparr>wheel_engineForce := 0, wheel_brake := 0\<rparr>,
         d\<lparr>wheel_engineForce := 0, wheel_brake := 0\<rparr>]"
    and v1: "length (wheelVisuals g1) = 4"
    and l1: "length (calls g1) = 28"
    using g1 v0 unfolding an0 by (auto simp: newGame_calls)
  let ?g1 = "g1\<lparr>inputs := (inputs newGame)\<lparr>forward := True\<rparr>\<rparr>"
  have w1': "wheelInfos (vehicle ?g1) =
        [a\<lparr>steering := 0, wheel_brake := 0\<rparr>, b\<lparr>steering := 0, wheel_brake := 0\<rparr>,
         c\<lparr>wheel_engineForce := 0, wheel_brake := 0\<rparr>,
         d\<lparr>wheel_engineForce := 0, wheel_brake := 0\<rparr>]"
    and v1': "length (wheelVisuals ?g1) = 4"
    using w1 v1 by simp_all
  have e1: "- 1500 = (if forward (inputs ?g1) then - engineForce
                 else if backward (inputs ?g1) then engineForce else 0)"
    and s1: "0 = (if left (inputs ?g1) then maxSteerVal
                 else if right (inputs ?g1) then - maxSteerVal else 0)"
    and k1: "0 = (if brake (inputs ?g1) then brakeForce else 0)"
    by (simp_all add: newGame_inputs engineForce_def)
  note an1 = animate_four [OF w1' v1' e1 s1 k1, of "1 / 60"]
  have fr: "frames [(inputs newGame, 0), ((inputs newGame)\<lparr>forward := True\<rparr>, 1 / 60)] newGame
      = animate (1 / 60) ?g1"
    using g1 by (simp split: sum.splits)
  show ?thesis
    unfolding fr an1 using z l1 by (simp add: controls_def)
qed

text \<open>
  Claim C2, amended. In every frame \<^verbatim>\<open>animate\<close> calls \<^verbatim>\<open>world.step\<close> first and
  \<^verbatim>\<open>updateVehicle\<close> exactly once right after it: the calls of the frame are the step,
  made with the control fields the wheels held when the frame began, then the calls of
  one update, then the synchronisation of the visuals. The values the update writes are
  those the step of the next frame is called with, whatever the next frame's inputs are.
\<close>

theorem animate_update_follows_step:
  assumes "length (wheelInfos (vehicle g)) = 4" "length (wheelVisuals g) = 4"
  shows "\<exists>gu g'. updateVehicle (g\<lparr>calls := []\<rparr>) = Inr gu
    \<and> animate delta g = Inr g'
    \<and> calls g' = calls g
        @ [RequestAnimationFrame, GetDelta,
           WorldStep (1 / 60) delta (map controls (wheelInfos (vehicle g)))]
        @ calls gu
        @ [CopyChassisPosition, CopyChassisQuaternion,
           UpdateWheelTransform 0, CopyWheelPosition 0, CopyWheelQuaternion 0,
           UpdateWheelTransform 1, CopyWheelPosition 1, CopyWheelQuaternion 1,
           UpdateWheelTransform 2, CopyWheelPosition 2, CopyWheelQuaternion 2,
           UpdateWheelTransform 3, CopyWheelPosition 3, CopyWheelQuaternion 3,
           FollowCamera, ShowSpeed, Render]
    \<and> wheelInfos (vehicle g') = wheelInfos (vehicle gu)
    \<and> (\<exists>g''. animate delta' (g'\<lparr>inputs := inp'\<rparr>) = Inr g''
          \<and> take 3 (drop (length (calls g')) (calls g'')) =
             [RequestAnimationFrame, GetDelta,
              WorldStep (1 / 60) delta' (map controls (wheelInfos (vehicle gu)))])"
proof -
  obtain a b c d where ws: "wheelInfos (vehicle g) = [a, b, c, d]"
    using length4E [OF assms(1)] by auto
  have wu: "wheelInfos (vehicle (g\<lparr>calls := []\<rparr>)) = [a, b, c, d]"
    using ws by simp
  define e where "e = (if forward (inputs g) then - engineForce
                 else if backward (inputs g) then engineForce else 0)"
  define s where "s = (if left (inputs g) then maxSteerVal
                 else if right (inputs g) then - maxSteerVal else 0)"
  define k where "k = (if brake (inputs g) then brakeForce else 0)"
  have e': "e = (if forward (inputs (g\<lparr>calls := []\<rparr>)) then - engineForce
                 else if backward (inputs (g\<lparr>calls := []\<rparr>)) then engineForce else 0)"
    and s': "s = (if left (inputs (g\<lparr>calls := []\<rparr>)) then maxSteerVal
                 else if right (inputs (g\<lparr>calls := []\<rparr>)) then - maxSteerVal else 0)"
    and k': "k = (if brake (inputs (g\<lparr>calls := []\<rparr>)) then brakeForce else 0)"
    by (simp_all add: e_def s_def k_def)
  note up = updateVehicle_four [OF wu e' s' k']
  note an = animate_four [OF ws assms(2) e_def s_def k_def, of delta]
  obtain gu where gu: "updateVehicle (g\<lparr>calls := []\<rparr>) = Inr gu" using up by simp
  obtain g' where g': "animate delta g = Inr g'" using an by simp
  have cu: "calls gu = [ApplyEngineForce e 2, ApplyEngineForce e 3,
       SetSteeringValue s 0, SetSteeringValue s 1,
       SetBrake k 0, SetBrake k 1, SetBrake k 2, SetBrake k 3]"
    and wgu: "wheelInfos (vehicle gu) =
        [a\<lparr>steering := s, wheel_brake := k\<rparr>, b\<lparr>steering := s, wheel_brake := k\<rparr>,
         c\<lparr>wheel_engineForce := e, wheel_brake := k\<rparr>,
         d\<lparr>wheel_engineForce := e, wheel_brake := k\<rparr>]"
    using gu unfolding up by auto
  have wg': "wheelInfos (vehicle g') =
        [a\<lparr>steering := s, wheel_brake := k\<rparr>, b\<lparr>steering := s, wheel_brake := k\<rparr>,
         c\<lparr>wheel_engineForce := e, wheel_brake := k\<rparr>,
         d\<lparr>wheel_engineForce := e, wheel_brake := k\<rparr>]"
    and vg': "length (wheelVisuals g') = 4"
    using g' assms(2) unfolding an by auto
  have cg': "calls g' = calls g
        @ [RequestAnimationFrame, GetDelta,
           WorldStep (1 / 60) delta (map controls (wheelInfos (vehicle g)))]
        @ calls gu
        @ [CopyChassisPosition, CopyChassisQuaternion,
           UpdateWheelTransform 0, CopyWheelPosition 0, CopyWheelQuaternion 0,
           UpdateWheelTransform 1, CopyWheelPosition 1, CopyWheelQuaternion 1,
           UpdateWheelTransform 2, CopyWheelPosition 2, CopyWheelQuaternion 2,
           UpdateWheelTransform 3, CopyWheelPosition 3, CopyWheelQuaternion 3,
           FollowCamera, ShowSpeed, Render]"
    using g' unfolding an by (auto simp: cu ws)
  have wn: "wheelInfos (vehicle (g'\<lparr>inputs := inp'\<rparr>)) =
        [a\<lparr>steering := s, wheel_brake := k\<rparr>, b\<lparr>steering := s, wheel_brake := k\<rparr>,
         c\<lparr>wheel_engineForce := e, wheel_brake := k\<rparr>,
         d\<lparr>wheel_engineForce := e, wheel_brake := k\<rparr>]"
    and vn: "length (wheelVisuals (g'\<lparr>inputs := inp'\<rparr>)) = 4"
    using wg' vg' by simp_all
  note an' = animate_four [OF wn vn refl refl refl, of delta']
  obtain g'' where g'': "animate delta' (g'\<lparr>inputs := inp'\<rparr>) = Inr g''" using an' by simp
  have "take 3 (drop (length (calls g')) (calls g'')) =
             [RequestAnimationFrame, GetDelta,
              WorldStep (1 / 60) delta' (map controls (wheelInfos (vehicle gu)))]"
    using g'' unfolding an' by (auto simp: wgu)
  with gu g' cg' wg' wgu g'' show ?thesis by auto
qed


theorem animate_update_follows_step_witness:
  "length (wheelInfos (vehicle (newGame\<lparr>inputs := (inputs newGame)\<lparr>forward := True\<rparr>\<rparr>))) = 4
   \<and> length (wheelVisuals (newGame\<lparr>inputs := (inputs newGame)\<lparr>forward := True\<rparr>\<rparr>)) = 4
   \<and> (\<exists>g'. animate (1 / 60) (newGame\<lparr>inputs := (inputs newGame)\<lparr>forward := True\<rparr>\<rparr>) = Inr g'
        \<and> take 5 (calls g') =
            [RequestAnimationFrame, GetDelta,
             WorldStep (1 / 60) (1 / 60) [(0, 0, 0), (0, 0, 0), (0, 0, 0), (0, 0, 0)],
             ApplyEngineForce (- 1500) 2, ApplyEngineForce (- 1500) 3]
        \<and> (\<exists>g''. animate (1 / 60) (g'\<lparr>inputs := inputs newGame\<rparr>) = Inr g''
              \<and> take 3 (drop (length (calls g')) (calls g'')) =
                 [RequestAnimationFrame, GetDelta,
                  WorldStep (1 / 60) (1 / 60)
                    [(0, 0, 0), (0, 0, 0), (- 1500, 0, 0), (- 1500, 0, 0)]]))"
proof -
  let ?G = "newGame\<lparr>inputs := (inputs newGame)\<lparr>forward := True\<rparr>\<rparr>"
  obtain a b c d where ws: "wheelInfos (vehicle newGame) = [a, b, c, d]"
    and z: "controls a = (0, 0, 0)" "controls b = (0, 0, 0)"
           "controls c = (0, 0, 0)" "controls d = (0, 0, 0)"
    using newGame_wheelInfos by auto
  have len: "length (wheelInfos (vehicle ?G)) = 4" "length (wheelVisuals ?G) = 4"
    using newGame_four by simp_all
  have wu: "wheelInfos (vehicle (?G\<lparr>calls := []\<rparr>)) = [a, b, c, d]"
    and wG: "wheelInfos (vehicle ?G) = [a, b, c, d]"
    using ws by simp_all
  have e: "- 1500 = (if forward (inputs (?G\<lparr>calls := []\<rparr>)) then - engineForce
                 else if backward (inputs (?G\<lparr>calls := []\<rparr>)) then engineForce else 0)"
    and s: "0 = (if left (inputs (?G\<lparr>calls := []\<rparr>)) then maxSteerVal
                 else if right (inputs (?G\<lparr>calls := []\<rparr>)) then - maxSteerVal else 0)"
    and k: "0 = (if brake (inputs (?G\<lparr>calls := []\<rparr>)) then brakeForce else 0)"
    by (simp_all add: newGame_inputs engineForce_def)
  note up = updateVehicle_four [OF wu e s k]
  from animate_update_follows_step [OF len, of "1 / 60" "1 / 60" "inputs newGame"]
  obtain gu g' g'' where gu: "updateVehicle (?G\<lparr>calls := []\<rparr>) = Inr gu"
    and g': "animate (1 / 60) ?G = Inr g'"
    and cg': "calls g' = calls ?G
        @ [RequestAnimationFrame, GetDelta,
           WorldStep (1 / 60) (1 / 60) (map controls (wheelInfos (vehicle ?G)))]
        @ calls gu
        @ [CopyChassisPosition, CopyChassisQuaternion,
           UpdateWheelTransform 0, CopyWheelPosition 0, CopyWheelQuaternion 0,
           UpdateWheelTransform 1, CopyWheelPosition 1, CopyWheelQuaternion 1,
           UpdateWheelTransform 2, CopyWheelPosition 2, CopyWheelQuaternion 2,
           UpdateWheelTransform 3, CopyWheelPosition 3, CopyWheelQuaternion 3,
           FollowCamera, ShowSpeed, Render]"
    and g'': "animate (1 / 60) (g'\<lparr>inputs := inputs newGame\<rparr>) = Inr g''"
    and cg'': "take 3 (drop (length (calls g')) (calls g'')) =
             [RequestAnimationFrame, GetDelta,
              WorldStep (1 / 60) (1 / 60) (map controls (wheelInfos (vehicle gu)))]"
    by blast
  have cu: "calls gu = [ApplyEngineForce (- 1500) 2, ApplyEngineForce (- 1500) 3,
       SetSteeringValue 0 0, SetSteeringValue 0 1,
       SetBrake 0 0, SetBrake 0 1, SetBrake 0 2, SetBrake 0 3]"
    and wgu: "map controls (wheelInfos (vehicle gu)) =
        [(0, 0, 0), (0, 0, 0), (- 1500, 0, 0), (- 1500, 0, 0)]"
    using gu z unfolding up by (auto simp: controls_def)
  have t5: "take 5 (calls g') =
            [RequestAnimationFrame, GetDelta,
             WorldStep (1 / 60) (1 / 60) [(0, 0, 0), (0, 0, 0), (0, 0, 0), (0, 0, 0)],
             ApplyEngineForce (- 1500) 2, ApplyEngineForce (- 1500) 3]"
    using z by (simp add: cg' cu ws newGame_calls)
  from len g' t5 g'' cg'' [unfolded wgu] show ?thesis by blast
qed

section \<open>The frame: the elapsed time\<close>

text \<open>
  Claim C8, as stated, fails. The claim says that an elapsed time that is zero or negative
  is clamped to a minimum positive value before it is used. In the constructor's first
  frame the clock returns 0, and the step is called with elapsed time 0.
\<close>

theorem animate_zero_delta_counterexample:
  "map_sum id (stepCalls \<circ> calls) (animate 0 newGame) = Inr [(1 / 60, 0)]"
proof -
  obtain a b c d where ws: "wheelInfos (vehicle newGame) = [a, b, c, d]"
    using newGame_wheelInfos by auto
  have vs: "length (wheelVisuals newGame) = 4" using newGame_four by simp
  show ?thesis
    by (simp add: animate_four [OF ws vs refl refl refl] stepCalls_def newGame_calls)
qed

text \<open>
  Claim C8, amended. In every frame the value returned by the clock is passed to
  \<^verbatim>\<open>world.step\<close> unchanged, as the time since the last call, with no clamping; the
  timestep argument is the constant 1/60; and the frame raises no error.
\<close>

theorem animate_passes_delta_unclamped:
  assumes "length (wheelInfos (vehicle g)) = 4" "length (wheelVisuals g) = 4"
  shows "\<exists>g'. animate delta g = Inr g'
    \<and> stepCalls (calls g') = stepCalls (calls g) @ [(1 / 60, delta)]"
proof -
  obtain a b c d where ws: "wheelInfos (vehicle g) = [a, b, c, d]"
    using length4E [OF assms(1)] by auto
  show ?thesis
    by (simp add: animate_four [OF ws assms(2) refl refl refl] stepCalls_def)
qed

theorem animate_passes_delta_unclamped_witness:
  "length (wheelInfos (vehicle newGame)) = 4 \<and> length (wheelVisuals newGame) = 4
   \<and> (\<exists>g'. animate 0 newGame = Inr g' \<and> stepCalls (calls g') = [(1 / 60, 0)])"
  using animate_passes_delta_unclamped [of newGame 0] newGame_four
  by (simp add: newGame_calls stepCalls_def)

end
